theory Spec2Isabelle
  imports Complex_Main
begin

section \<open>The ultrafiltration simulation engine\<close>

text \<open>
  The simulation lives in the component \<^verbatim>\<open>UltraFiltrationSim\<close>: a particle population, a
  membrane health value and an elapsed time, advanced once per animation frame by the
  closure \<^verbatim>\<open>step\<close>, read by the derived value \<^verbatim>\<open>flux\<close>, and changed by the handler
  \<^verbatim>\<open>handleBackwash\<close>.

  JavaScript numbers are modelled as \<^typ>\<open>real\<close>: rounding of IEEE doubles, infinities and
  NaN are outside the model. Every call of \<^verbatim>\<open>Math.random()\<close> reads the next element of an
  explicit stream of draws \<open>rng :: nat \<Rightarrow> real\<close>; a position counter is threaded through
  the per-particle update in the order in which the source makes its calls.
\<close>

subsection \<open>Geometry constants\<close>

text \<open>
  The module \<^verbatim>\<open>@/lib/constants\<close> that exports the vessel geometry is not among the
  sources. The five constants the engine reads are therefore the fields of a parameter
  record, and every general result holds for all values of them.
\<close>

record constants =
  VESSEL_X :: real
  VESSEL_Y :: real
  VESSEL_W :: real
  VESSEL_H :: real
  MEMBRANE_X :: real

subsection \<open>Data model\<close>

datatype ParticleRegion = Feed | Retentate | Permeate

record Particle =
  id_p :: int
  x :: real
  y :: real
  size_p :: real
  vx :: real
  vy :: real
  region :: ParticleRegion

text \<open>The control inputs captured by the closure \<^verbatim>\<open>step\<close>.\<close>

record params =
  pressure :: real
  poreSize :: real
  feedConcentration :: real
  meanSoluteSize :: real
  stirRate :: real

text \<open>The three pieces of component state that the simulation updates.\<close>

record sim_state =
  particles :: "Particle list"
  time :: real
  membraneHealth :: real

type_synonym rng = "nat \<Rightarrow> real"

subsection \<open>Helpers\<close>

definition clamp :: "real \<Rightarrow> real \<Rightarrow> real \<Rightarrow> real" where
  "clamp v lo hi = max lo (min hi v)"

subsection \<open>Membrane fouling\<close>

text \<open>The updater passed to \<^verbatim>\<open>setMembraneHealth\<close> inside \<^verbatim>\<open>step\<close>.\<close>

definition health_step :: "params \<Rightarrow> real \<Rightarrow> real \<Rightarrow> real" where
  "health_step prm dt h =
     (let foulingFromPressure = pressure prm / 2200;
          foulingFromConc = feedConcentration prm / 9000;
          decay = (foulingFromPressure + foulingFromConc) * dt
      in clamp (h - decay) 0 100)"

subsection \<open>Per-particle update\<close>

text \<open>Random vertical mixing, then the two vertical limit tests, with draw \<open>r\<close>.\<close>

definition vertical_mix :: "constants \<Rightarrow> params \<Rightarrow> real \<Rightarrow> Particle \<Rightarrow> Particle" where
  "vertical_mix c prm r p =
     (let mixStrength = stirRate prm / 140;
          y1 = y p + (r - 0.5) * mixStrength * 12;
          topLimit = VESSEL_Y c + 20;
          bottomLimit = VESSEL_Y c + VESSEL_H c - 20;
          y2 = (if y1 < topLimit then topLimit else y1);
          y3 = (if y2 > bottomLimit then bottomLimit else y2)
      in p\<lparr>y := y3\<rparr>)"

text \<open>
  The horizontal position of a feed particle after the pressure-driven advance and the
  jitter with draw \<open>r\<close>, that is the value tested against \<^verbatim>\<open>MEMBRANE_X - 8\<close>.
\<close>

definition feed_vx :: "params \<Rightarrow> real \<Rightarrow> Particle \<Rightarrow> real" where
  "feed_vx prm dt p = vx p + (0.5 + pressure prm / 70) * dt"

definition feed_x :: "params \<Rightarrow> real \<Rightarrow> real \<Rightarrow> Particle \<Rightarrow> real" where
  "feed_x prm dt r p = x p + feed_vx prm dt p + (r - 0.5) * dt * 8"

text \<open>The branch \<^verbatim>\<open>region === "feed"\<close>.\<close>

definition feed_region :: "constants \<Rightarrow> params \<Rightarrow> real \<Rightarrow> real \<Rightarrow> Particle \<Rightarrow> Particle" where
  "feed_region c prm dt r p =
     (let pressureForce = pressure prm / 70;
          vx1 = feed_vx prm dt p;
          x2 = feed_x prm dt r p
      in if x2 \<ge> MEMBRANE_X c - 8 then
           (if size_p p < poreSize prm
            then p\<lparr>x := MEMBRANE_X c + 16, vx := 20 * pressureForce, region := Permeate\<rparr>
            else p\<lparr>x := MEMBRANE_X c - 10, vx := - vx1 * 0.3, region := Retentate\<rparr>)
         else p\<lparr>x := x2, vx := vx1\<rparr>)"

text \<open>The horizontal increment of a retentate particle for the draw \<open>r\<close>.\<close>

definition retentate_dx :: "real \<Rightarrow> real \<Rightarrow> real" where
  "retentate_dx r dt = (r - 0.3) * dt * 25"

text \<open>The branch \<^verbatim>\<open>region === "retentate"\<close>, with the draws \<open>r1\<close> and \<open>r2\<close>.\<close>

definition retentate_region :: "constants \<Rightarrow> real \<Rightarrow> real \<Rightarrow> real \<Rightarrow> Particle \<Rightarrow> Particle" where
  "retentate_region c dt r1 r2 p =
     p\<lparr>x := clamp (x p + retentate_dx r1 dt) (VESSEL_X c + 20) (MEMBRANE_X c - 12),
       y := y p + (r2 - 0.5) * dt * 16\<rparr>"

text \<open>The branch \<^verbatim>\<open>region === "permeate"\<close> up to the test against the right limit.\<close>

definition permeate_move :: "params \<Rightarrow> real \<Rightarrow> Particle \<Rightarrow> Particle" where
  "permeate_move prm dt p =
     (let pressureForce = pressure prm / 80;
          vx1 = vx p + (0.4 + pressureForce) * dt;
          vy1 = vy p + 0.15 * dt
      in p\<lparr>x := x p + vx1 * dt * 12, y := y p + vy1 * dt * 10, vx := vx1, vy := vy1\<rparr>)"

text \<open>The recycling of a permeate particle past the right limit, with two draws.\<close>

definition recycle :: "constants \<Rightarrow> real \<Rightarrow> real \<Rightarrow> Particle \<Rightarrow> Particle" where
  "recycle c r1 r2 p =
     p\<lparr>x := VESSEL_X c + 20 + r1 * 40,
       y := VESSEL_Y c + 30 + r2 * (VESSEL_H c - 80),
       vx := 0, vy := 0, region := Feed\<rparr>"

text \<open>The two horizontal limit tests at the end of the update.\<close>

definition hard_x :: "constants \<Rightarrow> real \<Rightarrow> real" where
  "hard_x c v =
     (let leftLimit = VESSEL_X c + 10;
          rightLimit = VESSEL_X c + VESSEL_W c - 10;
          v1 = (if v < leftLimit then leftLimit else v)
      in if v1 > rightLimit then rightLimit else v1)"

definition hard_bounds :: "constants \<Rightarrow> Particle \<Rightarrow> Particle" where
  "hard_bounds c p = p\<lparr>x := hard_x c (x p)\<rparr>"

text \<open>
  The function mapped over the population. It starts reading draws at position \<open>n\<close> and
  returns the next unread position: one draw for the mixing, then one for a feed particle,
  two for a retentate particle, and two for a permeate particle only when it is recycled.
\<close>

definition step_particle ::
  "constants \<Rightarrow> params \<Rightarrow> real \<Rightarrow> rng \<Rightarrow> nat \<Rightarrow> Particle \<Rightarrow> Particle \<times> nat" where
  "step_particle c prm dt rng n p =
     (let p1 = vertical_mix c prm (rng n) p in
      case region p of
        Feed \<Rightarrow> (hard_bounds c (feed_region c prm dt (rng (n + 1)) p1), n + 2)
      | Retentate \<Rightarrow>
          (hard_bounds c (retentate_region c dt (rng (n + 1)) (rng (n + 2)) p1), n + 3)
      | Permeate \<Rightarrow>
          (let p2 = permeate_move prm dt p1;
               rightLimit = VESSEL_X c + VESSEL_W c - 20
           in if x p2 > rightLimit
              then (hard_bounds c (recycle c (rng (n + 1)) (rng (n + 2)) p2), n + 3)
              else (hard_bounds c p2, n + 1)))"

fun step_particles ::
  "constants \<Rightarrow> params \<Rightarrow> real \<Rightarrow> rng \<Rightarrow> nat \<Rightarrow> Particle list \<Rightarrow> Particle list \<times> nat" where
  "step_particles c prm dt rng n [] = ([], n)"
| "step_particles c prm dt rng n (p # ps) =
     (let (p', n') = step_particle c prm dt rng n p;
          (ps', n'') = step_particles c prm dt rng n' ps
      in (p' # ps', n''))"

subsection \<open>One frame\<close>

text \<open>
  The body of \<^verbatim>\<open>step\<close> for a frame whose measured time delta is \<open>dt\<close>: the three state
  updaters applied to the current state.
\<close>

definition step :: "constants \<Rightarrow> params \<Rightarrow> real \<Rightarrow> rng \<Rightarrow> sim_state \<Rightarrow> sim_state" where
  "step c prm dt rng s =
     \<lparr>particles = fst (step_particles c prm dt rng 0 (particles s)),
      time = time s + dt,
      membraneHealth = health_step prm dt (membraneHealth s)\<rparr>"

subsection \<open>Flux\<close>

text \<open>
  \<^verbatim>\<open>Number(v.toFixed(2))\<close>: the multiple of 1/100 nearest to \<open>v\<close>, a tie going to the one of
  larger magnitude; a negative \<open>v\<close> is rounded through its absolute value.
\<close>

definition toFixed2 :: "real \<Rightarrow> real" where
  "toFixed2 v =
     (if v < 0 then - (of_int \<lfloor>- v * 100 + 1 / 2\<rfloor> / 100)
      else of_int \<lfloor>v * 100 + 1 / 2\<rfloor> / 100)"

definition permeateCount :: "Particle list \<Rightarrow> nat" where
  "permeateCount ps = length (filter (\<lambda>p. region p = Permeate) ps)"

definition baseFlux :: "Particle list \<Rightarrow> real \<Rightarrow> real \<Rightarrow> real" where
  "baseFlux ps pr t = (real (permeateCount ps) * (pr / 50)) / (1 + t)"

definition flux :: "Particle list \<Rightarrow> real \<Rightarrow> real \<Rightarrow> real \<Rightarrow> real" where
  "flux ps pr h t = toFixed2 (baseFlux ps pr t * (0.4 + h / 100))"

subsection \<open>Backwash\<close>

definition backwash_particle :: "Particle \<Rightarrow> Particle" where
  "backwash_particle p =
     (if region p = Retentate then p\<lparr>x := x p - 40, region := Feed\<rparr> else p)"

definition handleBackwash :: "sim_state \<Rightarrow> sim_state" where
  "handleBackwash s =
     s\<lparr>membraneHealth := clamp (membraneHealth s + 25) 0 100,
       particles := map backwash_particle (particles s)\<rparr>"

subsection \<open>Concrete inputs\<close>

text \<open>
  The inputs at which the results below are evaluated. The geometry \<open>c0\<close> is an example
  (a vessel 520 wide and 260 high whose corner is at (40, 40), the membrane at 300); the
  control values \<open>prm0\<close> are the component's initial ones.
\<close>

definition c0 :: constants where
  "c0 = \<lparr>VESSEL_X = 40, VESSEL_Y = 40, VESSEL_W = 520, VESSEL_H = 260, MEMBRANE_X = 300\<rparr>"

definition prm0 :: params where
  "prm0 = \<lparr>pressure = 40, poreSize = 10, feedConcentration = 300, meanSoluteSize = 10,
           stirRate = 40\<rparr>"

definition mk :: "int \<Rightarrow> real \<Rightarrow> real \<Rightarrow> real \<Rightarrow> real \<Rightarrow> real \<Rightarrow> ParticleRegion \<Rightarrow> Particle" where
  "mk i px py sz pvx pvy rg =
     \<lparr>id_p = i, x = px, y = py, size_p = sz, vx = pvx, vy = pvy, region = rg\<rparr>"

text \<open>Five particles that have passed the membrane.\<close>

definition ps5 :: "Particle list" where
  "ps5 = replicate 5 (mk 0 320 100 8 0 0 Permeate)"

text \<open>A single feed particle in the middle of the feed side.\<close>

definition s_stir :: sim_state where
  "s_stir = \<lparr>particles = [mk 0 100 100 8 0 0 Feed], time = 0, membraneHealth = 100\<rparr>"

text \<open>One particle of each region, none of them at a limit.\<close>

definition s_rest :: sim_state where
  "s_rest = \<lparr>particles = [mk 0 100 100 8 0 0 Feed, mk 1 250 120 12 0 0 Retentate,
                          mk 2 400 150 8 3 1 Permeate],
            time = 5, membraneHealth = 80\<rparr>"

text \<open>A permeate particle just past the right limit \<^verbatim>\<open>VESSEL_X + VESSEL_W - 20\<close>.\<close>

definition s_out :: sim_state where
  "s_out = \<lparr>particles = [mk 7 545 100 8 10 0 Permeate], time = 2, membraneHealth = 90\<rparr>"

text \<open>
  Five retentate particles, a feed particle and a permeate particle at health 50; the third
  retentate particle is at the lower end \<^verbatim>\<open>VESSEL_X + 20\<close> of the retentate range.
\<close>

definition s_bw :: sim_state where
  "s_bw = \<lparr>particles = [mk 0 290 100 12 (-1) 0 Retentate, mk 1 288 120 14 0 0 Retentate,
                        mk 2 60 140 12 0 0 Retentate, mk 3 200 160 16 0 0 Retentate,
                        mk 4 250 180 12 0 0 Retentate, mk 5 100 90 8 1 0 Feed,
                        mk 6 400 90 8 5 1 Permeate],
           time = 12, membraneHealth = 50\<rparr>"

text \<open>A retentate particle on the top limit \<^verbatim>\<open>VESSEL_Y + 20\<close>.\<close>

definition s_top :: sim_state where
  "s_top = \<lparr>particles = [mk 0 200 60 12 0 0 Retentate], time = 0, membraneHealth = 100\<rparr>"

subsection \<open>Notions used by the properties\<close>

text \<open>
  A particle on which a frame of zero duration without stirring has nothing to do: it is
  inside the vertical and horizontal limits, and moreover a feed particle has no horizontal
  velocity and is short of the membrane test, a retentate particle is inside the retentate
  range, and a permeate particle has not passed the right limit.
\<close>

definition at_rest :: "constants \<Rightarrow> Particle \<Rightarrow> bool" where
  "at_rest c p \<longleftrightarrow>
     VESSEL_Y c + 20 \<le> y p \<and> y p \<le> VESSEL_Y c + VESSEL_H c - 20 \<and>
     VESSEL_X c + 10 \<le> x p \<and> x p \<le> VESSEL_X c + VESSEL_W c - 10 \<and>
     (case region p of
        Feed \<Rightarrow> vx p = 0 \<and> x p < MEMBRANE_X c - 8
      | Retentate \<Rightarrow> VESSEL_X c + 20 \<le> x p \<and> x p \<le> MEMBRANE_X c - 12
      | Permeate \<Rightarrow> x p \<le> VESSEL_X c + VESSEL_W c - 20)"

text \<open>
  The mean horizontal increment of a retentate particle over \<open>m + 1\<close> equally spaced draws,
  the midpoints of the \<open>m + 1\<close> equal parts of the unit interval.
\<close>

definition mean_retentate_dx :: "nat \<Rightarrow> real \<Rightarrow> real" where
  "mean_retentate_dx m dt =
     (\<Sum>k<Suc m. retentate_dx ((real k + 1 / 2) / real (Suc m)) dt) / real (Suc m)"

section \<open>Properties\<close>

subsection \<open>Auxiliary facts\<close>

lemma step_particle_feed:
  "region p = Feed \<Longrightarrow>
   fst (step_particle c prm dt rng n p) =
     hard_bounds c (feed_region c prm dt (rng (n + 1)) (vertical_mix c prm (rng n) p))"
  by (simp add: step_particle_def Let_def)

lemma vertical_mix_fields [simp]:
  "x (vertical_mix c prm r p) = x p" "vx (vertical_mix c prm r p) = vx p"
  "vy (vertical_mix c prm r p) = vy p" "size_p (vertical_mix c prm r p) = size_p p"
  "region (vertical_mix c prm r p) = region p" "id_p (vertical_mix c prm r p) = id_p p"
  by (simp_all add: vertical_mix_def Let_def)

lemma feed_x_mix [simp]:
  "feed_x prm dt r (vertical_mix c prm r' p) = feed_x prm dt r p"
  "feed_vx prm dt (vertical_mix c prm r' p) = feed_vx prm dt p"
  by (simp_all add: feed_x_def feed_vx_def)

lemma toFixed2_nonneg_eq: "0 \<le> v \<Longrightarrow> toFixed2 v = of_int \<lfloor>v * 100 + 1 / 2\<rfloor> / 100"
  by (simp add: toFixed2_def)

lemma toFixed2_nonneg: "0 \<le> v \<Longrightarrow> 0 \<le> toFixed2 v"
proof -
  assume "0 \<le> v"
  then have "0 \<le> v * 100 + 1 / 2" by simp
  then have "0 \<le> \<lfloor>v * 100 + 1 / 2\<rfloor>" by simp
  then show ?thesis using \<open>0 \<le> v\<close> by (simp add: toFixed2_def)
qed

lemma toFixed2_near: "0 \<le> v \<Longrightarrow> \<bar>toFixed2 v - v\<bar> \<le> 1 / 200"
proof -
  assume v: "0 \<le> v"
  define k where "k = \<lfloor>v * 100 + 1 / 2\<rfloor>"
  have "of_int k \<le> v * 100 + 1 / 2" "v * 100 + 1 / 2 < of_int k + 1"
    unfolding k_def by linarith+
  then have "\<bar>of_int k / 100 - v\<bar> \<le> 1 / 200" by linarith
  then show ?thesis using v by (simp add: toFixed2_def k_def)
qed

lemma baseFlux_nonneg: "0 \<le> pr \<Longrightarrow> 0 \<le> t \<Longrightarrow> 0 \<le> baseFlux ps pr t"
  by (simp add: baseFlux_def)

lemma rawFlux_nonneg:
  assumes "0 \<le> pr" "0 \<le> h" "0 \<le> t"
  shows "0 \<le> baseFlux ps pr t * (0.4 + h / 100)"
proof -
  have b: "0 \<le> baseFlux ps pr t" using assms by (simp add: baseFlux_nonneg)
  have "0 \<le> 0.4 + h / 100" using assms by simp
  with b show ?thesis by (rule mult_nonneg_nonneg)
qed

lemma permeateCount_card:
  "permeateCount ps = card {i. i < length ps \<and> region (ps ! i) = Permeate}"
  by (simp add: permeateCount_def length_filter_conv_card)

lemma permeateCount_ps5: "permeateCount ps5 = 5"
  by (simp add: permeateCount_def ps5_def mk_def numeral_eq_Suc)

lemma step_particles_length: "length (fst (step_particles c prm dt rng n ps)) = length ps"
  by (induction ps arbitrary: n) (simp_all add: split_beta Let_def)

lemma step_particle_id: "id_p (fst (step_particle c prm dt rng n p)) = id_p p"
  by (simp add: step_particle_def vertical_mix_def feed_region_def retentate_region_def
      permeate_move_def recycle_def hard_bounds_def Let_def split: ParticleRegion.splits)

lemma step_particle_size: "size_p (fst (step_particle c prm dt rng n p)) = size_p p"
  by (simp add: step_particle_def vertical_mix_def feed_region_def retentate_region_def
      permeate_move_def recycle_def hard_bounds_def Let_def split: ParticleRegion.splits)

lemma step_particles_ids:
  "map id_p (fst (step_particles c prm dt rng n ps)) = map id_p ps"
  by (induction ps arbitrary: n) (simp_all add: split_beta Let_def step_particle_id)

lemma step_particles_sizes:
  "map size_p (fst (step_particles c prm dt rng n ps)) = map size_p ps"
  by (induction ps arbitrary: n) (simp_all add: split_beta Let_def step_particle_size)

text \<open>The horizontal position after a frame is inside the two final limits.\<close>

lemma hard_x_bounds:
  "20 \<le> VESSEL_W c \<Longrightarrow>
   VESSEL_X c + 10 \<le> hard_x c v \<and> hard_x c v \<le> VESSEL_X c + VESSEL_W c - 10"
  by (simp add: hard_x_def Let_def)

lemma step_particle_x_bounds:
  assumes "20 \<le> VESSEL_W c"
  shows "VESSEL_X c + 10 \<le> x (fst (step_particle c prm dt rng n p)) \<and>
         x (fst (step_particle c prm dt rng n p)) \<le> VESSEL_X c + VESSEL_W c - 10"
  using hard_x_bounds [OF assms]
  by (simp add: step_particle_def hard_bounds_def Let_def split: ParticleRegion.splits)

text \<open>The retentate branch leaves the particle inside the retentate range.\<close>

lemma retentate_region_confined:
  "VESSEL_X c + 20 \<le> MEMBRANE_X c - 12 \<Longrightarrow>
   VESSEL_X c + 20 \<le> x (retentate_region c dt r1 r2 p) \<and>
   x (retentate_region c dt r1 r2 p) \<le> MEMBRANE_X c - 12"
  by (simp add: retentate_region_def clamp_def)

text \<open>A frame of zero duration without stirring returns a particle at rest as it is.\<close>

lemma step_particle_rest:
  assumes "stirRate prm = 0"
    and "VESSEL_Y c + 20 \<le> y p" "y p \<le> VESSEL_Y c + VESSEL_H c - 20"
    and "VESSEL_X c + 10 \<le> x p" "x p \<le> VESSEL_X c + VESSEL_W c - 10"
    and "region p = Feed \<longrightarrow> vx p = 0 \<and> x p < MEMBRANE_X c - 8"
    and "region p = Retentate \<longrightarrow> VESSEL_X c + 20 \<le> x p \<and> x p \<le> MEMBRANE_X c - 12"
    and "region p = Permeate \<longrightarrow> x p \<le> VESSEL_X c + VESSEL_W c - 20"
  shows "fst (step_particle c prm 0 rng n p) = p"
proof -
  have m: "vertical_mix c prm (rng n) p = p"
    using assms(1-3) by (simp add: vertical_mix_def Let_def)
  have hb: "hard_bounds c p = p"
    using assms(4,5) by (simp add: hard_bounds_def hard_x_def Let_def)
  show ?thesis
  proof (cases "region p")
    case Feed
    then have "feed_region c prm 0 (rng (n + 1)) p = p"
      using assms(6) by (simp add: feed_region_def feed_x_def feed_vx_def Let_def)
    then show ?thesis using Feed m hb by (simp add: step_particle_def Let_def)
  next
    case Retentate
    then have "retentate_region c 0 (rng (n + 1)) (rng (n + 2)) p = p"
      using assms(7) by (simp add: retentate_region_def retentate_dx_def clamp_def)
    then show ?thesis using Retentate m hb by (simp add: step_particle_def Let_def)
  next
    case Permeate
    have "permeate_move prm 0 p = p" by (simp add: permeate_move_def Let_def)
    then show ?thesis using Permeate m hb assms(8) by (simp add: step_particle_def Let_def)
  qed
qed

lemma step_particles_rest:
  assumes "stirRate prm = 0"
  shows "list_all (at_rest c) ps \<Longrightarrow> fst (step_particles c prm 0 rng n ps) = ps"
proof (induction ps arbitrary: n)
  case Nil
  then show ?case by simp
next
  case (Cons p ps)
  then have r: "at_rest c p" and rs: "list_all (at_rest c) ps" by simp_all
  have "fst (step_particle c prm 0 rng n p) = p"
    using assms r
    by (intro step_particle_rest) (auto simp: at_rest_def split: ParticleRegion.splits)
  moreover have "fst (step_particles c prm 0 rng (snd (step_particle c prm 0 rng n p)) ps) = ps"
    using Cons.IH [OF rs] .
  ultimately show ?case by (simp add: split_beta Let_def)
qed

text \<open>The mean increment of a retentate particle, computed.\<close>

lemma sum_midpoints: "(\<Sum>k<n. real k + 1 / 2) = (real n)\<^sup>2 / 2"
  by (induction n) (simp_all add: power2_eq_square field_simps)

lemma retentate_dx_affine:
  "retentate_dx ((real k + 1 / 2) / real (Suc m)) dt
     = (25 * dt / real (Suc m)) * (real k + 1 / 2) - 15 / 2 * dt"
  by (simp add: retentate_dx_def field_simps)

lemma mean_retentate_dx_eq: "mean_retentate_dx m dt = 5 * dt"
proof -
  have "(\<Sum>k<Suc m. retentate_dx ((real k + 1 / 2) / real (Suc m)) dt)
      = (\<Sum>k<Suc m. (25 * dt / real (Suc m)) * (real k + 1 / 2) - 15 / 2 * dt)"
    by (simp only: retentate_dx_affine)
  also have "\<dots> = (25 * dt / real (Suc m)) * (\<Sum>k<Suc m. real k + 1 / 2)
      - real (Suc m) * (15 / 2 * dt)"
    by (simp only: sum_subtractf sum_distrib_left [symmetric] sum_constant card_lessThan)
  also have "\<dots> = 5 * dt * real (Suc m)"
    by (simp only: sum_midpoints) (simp add: power2_eq_square field_simps)
  finally show ?thesis by (simp add: mean_retentate_dx_def)
qed

subsection \<open>The permeation decision\<close>

text \<open>
  Claim C1. A feed particle whose advanced and jittered horizontal position reaches
  \<^verbatim>\<open>MEMBRANE_X - 8\<close> is decided by \<open>size < poreSize\<close> alone. If the test holds, the feed
  branch makes it a permeate particle at \<^verbatim>\<open>MEMBRANE_X + 16\<close> with horizontal velocity
  \<open>20 \<times> pressure / 70\<close>; otherwise it makes it a retentate particle at \<^verbatim>\<open>MEMBRANE_X - 10\<close>
  whose horizontal velocity is the updated velocity times \<open>-0.3\<close>. The particle returned by
  the whole update has that region and velocity, and its position is the assigned one after
  the two final horizontal limit tests.
\<close>

theorem permeation_decision:
  assumes "region p = Feed"
    and "feed_x prm dt (rng (n + 1)) p \<ge> MEMBRANE_X c - 8"
  shows "let q0 = feed_region c prm dt (rng (n + 1)) (vertical_mix c prm (rng n) p);
             q = fst (step_particle c prm dt rng n p)
         in (if size_p p < poreSize prm
             then region q0 = Permeate \<and> x q0 = MEMBRANE_X c + 16 \<and>
                  vx q0 = 20 * (pressure prm / 70) \<and>
                  region q = Permeate \<and> x q = hard_x c (MEMBRANE_X c + 16) \<and>
                  vx q = 20 * (pressure prm / 70)
             else region q0 = Retentate \<and> x q0 = MEMBRANE_X c - 10 \<and>
                  vx q0 = - (vx p + (0.5 + pressure prm / 70) * dt) * 0.3 \<and>
                  region q = Retentate \<and> x q = hard_x c (MEMBRANE_X c - 10) \<and>
                  vx q = - (vx p + (0.5 + pressure prm / 70) * dt) * 0.3)"
  using assms
  by (simp add: step_particle_feed feed_region_def hard_bounds_def Let_def)
    (simp add: feed_vx_def)

theorem permeation_decision_witness:
  "region (mk 0 295 100 8 0 0 Feed) = Feed \<and>
   feed_x prm0 1 ((\<lambda>_. 1 / 2) (0 + 1)) (mk 0 295 100 8 0 0 Feed) \<ge> MEMBRANE_X c0 - 8 \<and>
   region (fst (step_particle c0 prm0 1 (\<lambda>_. 1 / 2) 0 (mk 0 295 100 8 0 0 Feed))) = Permeate \<and>
   x (fst (step_particle c0 prm0 1 (\<lambda>_. 1 / 2) 0 (mk 0 295 100 8 0 0 Feed))) = 316 \<and>
   vx (fst (step_particle c0 prm0 1 (\<lambda>_. 1 / 2) 0 (mk 0 295 100 8 0 0 Feed))) = 80 / 7"
proof -
  have h1: "region (mk 0 295 100 8 0 0 Feed) = Feed" by (simp add: mk_def)
  have h2: "feed_x prm0 1 ((\<lambda>_. 1 / 2) (0 + 1)) (mk 0 295 100 8 0 0 Feed) \<ge> MEMBRANE_X c0 - 8"
    by (simp add: feed_x_def feed_vx_def prm0_def mk_def c0_def)
  have sz: "size_p (mk 0 295 100 8 0 0 Feed) < poreSize prm0" by (simp add: mk_def prm0_def)
  have hx: "hard_x c0 (MEMBRANE_X c0 + 16) = 316" by (simp add: hard_x_def c0_def)
  have pr: "20 * (pressure prm0 / 70) = 80 / 7" by (simp add: prm0_def)
  show ?thesis
    using permeation_decision [where p = "mk 0 295 100 8 0 0 Feed" and prm = prm0 and dt = 1
        and rng = "\<lambda>_. 1 / 2" and n = 0 and c = c0] h1 h2 sz hx pr
    by (simp add: Let_def)
qed

subsection \<open>Bounds\<close>

text \<open>
  Claim C2, evaluated where it fails. The vertical limit tests come before the region
  branches, and the retentate and permeate branches move the particle vertically after
  them. A retentate particle on the top limit \<^verbatim>\<open>VESSEL_Y + 20\<close>, with every draw 0, ends a
  frame of 1/60 s above that limit, and a frame of 3 s above the vessel's top edge
  \<^verbatim>\<open>VESSEL_Y\<close>. (The horizontal position is inside its limits after every frame:
  \<open>step_particle_x_bounds\<close>.)
\<close>

theorem retentate_y_escapes:
  "map y (particles (step c0 prm0 (1 / 60) (\<lambda>_. 0) s_top)) = [898 / 15] \<and>
   (898 / 15 :: real) < VESSEL_Y c0 + 20 \<and>
   map y (particles (step c0 prm0 3 (\<lambda>_. 0) s_top)) = [36] \<and>
   (36 :: real) < VESSEL_Y c0"
  by (simp add: step_def s_top_def step_particle_def vertical_mix_def retentate_region_def
      retentate_dx_def clamp_def hard_bounds_def hard_x_def c0_def prm0_def mk_def Let_def)

subsection \<open>Membrane health\<close>

text \<open>
  Claim C3. The health after a frame is
  \<open>clamp(health - (pressure / 2200 + feedConcentration / 9000) \<times> dt, 0, 100)\<close>, and for a
  health in [0, 100] and non-negative pressure, feed concentration and time delta it is
  not above the health before the frame.
\<close>

theorem health_step_nonincreasing:
  assumes "0 \<le> h" "h \<le> 100" "0 \<le> pressure prm" "0 \<le> feedConcentration prm" "0 \<le> dt"
  shows "health_step prm dt h =
           clamp (h - (pressure prm / 2200 + feedConcentration prm / 9000) * dt) 0 100
       \<and> health_step prm dt h \<le> h"
proof -
  have "0 \<le> (pressure prm / 2200 + feedConcentration prm / 9000) * dt"
    using assms by simp
  then have "h - (pressure prm / 2200 + feedConcentration prm / 9000) * dt \<le> h" by simp
  then have "clamp (h - (pressure prm / 2200 + feedConcentration prm / 9000) * dt) 0 100 \<le> h"
    using assms(1) unfolding clamp_def by linarith
  then show ?thesis by (simp add: health_step_def Let_def)
qed

theorem health_step_nonincreasing_witness:
  "(0::real) \<le> 100 \<and> (100::real) \<le> 100 \<and> 0 \<le> pressure prm0 \<and>
   0 \<le> feedConcentration prm0 \<and> (0::real) \<le> 1 \<and>
   health_step prm0 1 100 = 100 - 17 / 330 \<and> health_step prm0 1 100 \<le> 100"
  using health_step_nonincreasing [of 100 prm0 1]
  by (simp add: prm0_def clamp_def)

subsection \<open>Flux\<close>

text \<open>
  Claim C4. For non-negative pressure, membrane health and elapsed time, the flux is the
  value \<open>(permeateCount \<times> (pressure / 50) / (1 + elapsedTime)) \<times> (0.4 + membraneHealth / 100)\<close>
  rounded to two decimal places, where \<open>permeateCount\<close> is the number of positions of the
  population that hold a permeate particle: the flux is the nearest multiple of 1/100
  (a tie rounded up) and differs from the unrounded value by at most 1/200. It is a
  function of the population, the pressure, the health and the elapsed time only.
\<close>

theorem flux_formula:
  assumes "0 \<le> pr" "0 \<le> h" "0 \<le> t"
  shows "let n = card {i. i < length ps \<and> region (ps ! i) = Permeate};
             v = (real n * (pr / 50) / (1 + t)) * (0.4 + h / 100)
         in flux ps pr h t = of_int \<lfloor>v * 100 + 1 / 2\<rfloor> / 100 \<and>
            \<bar>flux ps pr h t - v\<bar> \<le> 1 / 200"
proof -
  have v: "0 \<le> baseFlux ps pr t * (0.4 + h / 100)"
    using assms by (rule rawFlux_nonneg)
  show ?thesis
    using toFixed2_nonneg_eq [OF v] toFixed2_near [OF v]
    by (simp add: flux_def Let_def baseFlux_def permeateCount_card)
qed

theorem flux_formula_witness:
  "(0::real) \<le> 50 \<and> (0::real) \<le> 100 \<and> (0::real) \<le> 0 \<and> flux ps5 50 100 0 = 7"
proof -
  have "card {i. i < length ps5 \<and> region (ps5 ! i) = Permeate} = 5"
    using permeateCount_ps5 by (simp add: permeateCount_card)
  then show ?thesis
    using flux_formula [of 50 100 0 ps5] by (simp add: Let_def)
qed

text \<open>
  Claim C5, as stated: the flux is never negative, and the flux at health 0 is 40% of the
  flux at health 100. The second half fails: the health factor is \<open>0.4 + health / 100\<close>,
  which is 1.4 at health 100, so five permeate particles at pressure 50 and time 0 give a
  flux of 2 at health 0 and of 7 at health 100.
\<close>

theorem flux_health_ratio_counterexample:
  "flux ps5 50 0 0 \<noteq> 0.4 * flux ps5 50 100 0"
  by (simp add: flux_def baseFlux_def permeateCount_ps5 toFixed2_def)

text \<open>
  Claim C5, amended: for non-negative pressure, health and elapsed time the flux is never
  negative, and for a fixed population, pressure and elapsed time the flux at health 0 is
  the rounding of 40% of the base flux \<open>permeateCount \<times> (pressure / 50) / (1 + elapsedTime)\<close>,
  while the flux at health 100 is the rounding of 140% of the base flux.
\<close>

theorem flux_health_scaling:
  assumes "0 \<le> pr" "0 \<le> h" "0 \<le> t"
  shows "0 \<le> flux ps pr h t \<and>
         flux ps pr 0 t = toFixed2 (0.4 * baseFlux ps pr t) \<and>
         flux ps pr 100 t = toFixed2 (1.4 * baseFlux ps pr t)"
proof -
  have "0 \<le> baseFlux ps pr t * (0.4 + h / 100)"
    using assms by (rule rawFlux_nonneg)
  then have "0 \<le> flux ps pr h t" unfolding flux_def by (rule toFixed2_nonneg)
  then show ?thesis by (simp add: flux_def mult.commute)
qed

theorem flux_health_scaling_witness:
  "(0::real) \<le> 50 \<and> (0::real) \<le> 100 \<and> (0::real) \<le> 0 \<and>
   0 \<le> flux ps5 50 100 0 \<and> flux ps5 50 0 0 = 2 \<and> flux ps5 50 100 0 = 7"
  using flux_health_scaling [of 50 100 0 ps5]
  by (simp add: baseFlux_def permeateCount_ps5 toFixed2_def)

subsection \<open>A frame of zero duration\<close>

text \<open>
  Claim C6, as stated: a frame with \<open>dt = 0\<close> returns the input state. It fails: the
  stirring term \<open>(r - 0.5) \<times> (stirRate / 140) \<times> 12\<close> added to \<open>y\<close> does not depend on
  \<open>dt\<close>. With the initial controls and the draw 0, a feed particle at height 100 is moved
  to height \<open>100 - 12 / 7\<close>.
\<close>

theorem step_dt0_counterexample:
  "step c0 prm0 0 (\<lambda>_. 0) s_stir \<noteq> s_stir"
proof
  assume "step c0 prm0 0 (\<lambda>_. 0) s_stir = s_stir"
  then have "map y (particles (step c0 prm0 0 (\<lambda>_. 0) s_stir)) = map y (particles s_stir)"
    by simp
  then show False
    by (simp add: step_def s_stir_def step_particle_def vertical_mix_def feed_region_def
        feed_x_def feed_vx_def hard_bounds_def hard_x_def c0_def prm0_def mk_def Let_def)
qed

text \<open>
  Claim C6, amended: for every state, parameter setting and sequence of draws, a frame with
  \<open>dt = 0\<close> leaves the elapsed time and the number of particles unchanged, and leaves a
  membrane health in [0, 100] unchanged; when moreover the stir rate is 0 and every
  particle is at rest (\<open>at_rest\<close>), the state returned is identical to the input state.
\<close>

theorem step_dt0:
  "time (step c prm 0 rng s) = time s \<and>
   length (particles (step c prm 0 rng s)) = length (particles s) \<and>
   (0 \<le> membraneHealth s \<and> membraneHealth s \<le> 100 \<longrightarrow>
      membraneHealth (step c prm 0 rng s) = membraneHealth s) \<and>
   (0 \<le> membraneHealth s \<and> membraneHealth s \<le> 100 \<and> stirRate prm = 0 \<and>
    list_all (at_rest c) (particles s) \<longrightarrow> step c prm 0 rng s = s)"
proof -
  have h: "0 \<le> membraneHealth s \<and> membraneHealth s \<le> 100 \<Longrightarrow>
      health_step prm 0 (membraneHealth s) = membraneHealth s"
    by (simp add: health_step_def clamp_def)
  show ?thesis
    using h by (simp add: step_def step_particles_length step_particles_rest)
qed

theorem step_dt0_witness:
  "0 \<le> membraneHealth s_rest \<and> membraneHealth s_rest \<le> 100 \<and>
   stirRate (prm0\<lparr>stirRate := 0\<rparr>) = 0 \<and> list_all (at_rest c0) (particles s_rest) \<and>
   step c0 (prm0\<lparr>stirRate := 0\<rparr>) 0 (\<lambda>_. 0) s_rest = s_rest"
proof -
  have "list_all (at_rest c0) (particles s_rest)"
    by (simp add: s_rest_def at_rest_def c0_def mk_def)
  then show ?thesis
    using step_dt0 [of c0 "prm0\<lparr>stirRate := 0\<rparr>" "\<lambda>_. 0" s_rest]
    by (simp add: s_rest_def)
qed

subsection \<open>Population\<close>

text \<open>
  Claim C7. A frame returns as many particles as it was given, with the same identities
  and sizes in the same order, and so does the backwash. A permeate particle whose advanced
  horizontal position exceeds the right limit \<^verbatim>\<open>VESSEL_X + VESSEL_W - 20\<close> is kept: it
  becomes a feed particle with zero velocity at the drawn position
  \<^verbatim>\<open>(VESSEL_X + 20 + r1 * 40, VESSEL_Y + 30 + r2 * (VESSEL_H - 80))\<close>, the horizontal one
  after the two final limit tests.
\<close>

theorem population_conserved:
  "length (particles (step c prm dt rng s)) = length (particles s) \<and>
   map id_p (particles (step c prm dt rng s)) = map id_p (particles s) \<and>
   map size_p (particles (step c prm dt rng s)) = map size_p (particles s) \<and>
   length (particles (handleBackwash s)) = length (particles s) \<and>
   (region p = Permeate \<and> x (permeate_move prm dt p) > VESSEL_X c + VESSEL_W c - 20 \<longrightarrow>
      (let q = fst (step_particle c prm dt rng n p)
       in region q = Feed \<and> vx q = 0 \<and> vy q = 0 \<and>
          x q = hard_x c (VESSEL_X c + 20 + rng (n + 1) * 40) \<and>
          y q = VESSEL_Y c + 30 + rng (n + 2) * (VESSEL_H c - 80)))"
proof -
  have "region p = Permeate \<Longrightarrow> x (permeate_move prm dt p) > VESSEL_X c + VESSEL_W c - 20 \<Longrightarrow>
      fst (step_particle c prm dt rng n p) =
        hard_bounds c (recycle c (rng (n + 1)) (rng (n + 2))
          (permeate_move prm dt (vertical_mix c prm (rng n) p)))"
    by (simp add: step_particle_def Let_def permeate_move_def)
  then show ?thesis
    by (simp add: step_def handleBackwash_def step_particles_length step_particles_ids
        step_particles_sizes Let_def recycle_def hard_bounds_def)
qed

theorem population_conserved_witness:
  "region (mk 7 545 100 8 10 0 Permeate) = Permeate \<and>
   x (permeate_move prm0 1 (mk 7 545 100 8 10 0 Permeate)) > VESSEL_X c0 + VESSEL_W c0 - 20 \<and>
   length (particles (step c0 prm0 1 (\<lambda>_. 1 / 2) s_out)) = 1 \<and>
   region (fst (step_particle c0 prm0 1 (\<lambda>_. 1 / 2) 0 (mk 7 545 100 8 10 0 Permeate))) = Feed \<and>
   vx (fst (step_particle c0 prm0 1 (\<lambda>_. 1 / 2) 0 (mk 7 545 100 8 10 0 Permeate))) = 0 \<and>
   vy (fst (step_particle c0 prm0 1 (\<lambda>_. 1 / 2) 0 (mk 7 545 100 8 10 0 Permeate))) = 0 \<and>
   x (fst (step_particle c0 prm0 1 (\<lambda>_. 1 / 2) 0 (mk 7 545 100 8 10 0 Permeate))) = 80 \<and>
   y (fst (step_particle c0 prm0 1 (\<lambda>_. 1 / 2) 0 (mk 7 545 100 8 10 0 Permeate))) = 160"
proof -
  have h1: "region (mk 7 545 100 8 10 0 Permeate) = Permeate" by (simp add: mk_def)
  have h2: "x (permeate_move prm0 1 (mk 7 545 100 8 10 0 Permeate))
      > VESSEL_X c0 + VESSEL_W c0 - 20"
    by (simp add: permeate_move_def mk_def prm0_def c0_def Let_def)
  have hx: "hard_x c0 (VESSEL_X c0 + 20 + 1 / 2 * 40) = 80" by (simp add: hard_x_def c0_def)
  have hy: "VESSEL_Y c0 + 30 + 1 / 2 * (VESSEL_H c0 - 80) = 160" by (simp add: c0_def)
  have len: "length (particles s_out) = 1" by (simp add: s_out_def)
  show ?thesis
    using population_conserved [where p = "mk 7 545 100 8 10 0 Permeate" and prm = prm0
        and dt = 1 and c = c0 and rng = "\<lambda>_. 1 / 2" and n = 0 and s = s_out] h1 h2 hx hy len
    by (simp add: Let_def)
qed

subsection \<open>Backwash\<close>

text \<open>
  Claim C8. The backwash sets the membrane health to \<open>clamp(membraneHealth + 25, 0, 100)\<close>
  and leaves the elapsed time as it is; at every position of the population, a retentate
  particle becomes a feed particle whose \<open>x\<close> is 40 less and whose other fields are
  unchanged, and a feed or permeate particle is unchanged.
\<close>

theorem backwash_effect:
  "membraneHealth (handleBackwash s) = clamp (membraneHealth s + 25) 0 100 \<and>
   time (handleBackwash s) = time s \<and>
   length (particles (handleBackwash s)) = length (particles s) \<and>
   (\<forall>i < length (particles s).
      let p = particles s ! i; q = particles (handleBackwash s) ! i
      in (region p = Retentate \<longrightarrow> q = p\<lparr>x := x p - 40, region := Feed\<rparr>) \<and>
         (region p \<noteq> Retentate \<longrightarrow> q = p))"
  by (simp add: handleBackwash_def backwash_particle_def Let_def)

theorem backwash_effect_witness:
  "membraneHealth (handleBackwash s_bw) = 75 \<and> time (handleBackwash s_bw) = 12 \<and>
   (0::nat) < length (particles s_bw) \<and> region (particles s_bw ! 0) = Retentate \<and>
   particles (handleBackwash s_bw) ! 0 = mk 0 250 100 12 (-1) 0 Feed \<and>
   (5::nat) < length (particles s_bw) \<and> region (particles s_bw ! 5) \<noteq> Retentate \<and>
   particles (handleBackwash s_bw) ! 5 = mk 5 100 90 8 1 0 Feed"
proof -
  have l: "(0::nat) < length (particles s_bw)" "(5::nat) < length (particles s_bw)"
    by (simp_all add: s_bw_def)
  have p0: "particles s_bw ! 0 = mk 0 290 100 12 (-1) 0 Retentate"
    by (simp add: s_bw_def)
  have p5: "particles s_bw ! 5 = mk 5 100 90 8 1 0 Feed"
    by (simp add: s_bw_def)
  have h: "clamp (membraneHealth s_bw + 25) 0 100 = 75" "time s_bw = 12"
    by (simp_all add: s_bw_def clamp_def)
  have r: "region (mk 0 290 100 12 (-1) 0 Retentate) = Retentate"
    "region (mk 5 100 90 8 1 0 Feed) \<noteq> Retentate"
    "(mk 0 290 100 12 (-1) 0 Retentate)\<lparr>x := x (mk 0 290 100 12 (-1) 0 Retentate) - 40,
       region := Feed\<rparr> = mk 0 250 100 12 (-1) 0 Feed"
    by (simp_all add: mk_def)
  from backwash_effect [of s_bw] have
    a: "membraneHealth (handleBackwash s_bw) = clamp (membraneHealth s_bw + 25) 0 100"
    and b: "time (handleBackwash s_bw) = time s_bw"
    and c: "\<forall>i < length (particles s_bw).
      let p = particles s_bw ! i; q = particles (handleBackwash s_bw) ! i
      in (region p = Retentate \<longrightarrow> q = p\<lparr>x := x p - 40, region := Feed\<rparr>) \<and>
         (region p \<noteq> Retentate \<longrightarrow> q = p)"
    by blast+
  from c [rule_format, OF l(1)]
  have "particles (handleBackwash s_bw) ! 0 = mk 0 250 100 12 (-1) 0 Feed"
    by (simp add: Let_def p0 r)
  moreover from c [rule_format, OF l(2)]
  have "particles (handleBackwash s_bw) ! 5 = mk 5 100 90 8 1 0 Feed"
    by (simp add: Let_def p5 r)
  ultimately show ?thesis using a b h l p0 p5 r by simp
qed

text \<open>
  Claim C10. The backwash tests no limit: a retentate particle with \<open>x < VESSEL_X + 50\<close>
  (such as one at the lower end \<^verbatim>\<open>VESSEL_X + 20\<close> of the retentate range) is, after the
  backwash, a feed particle with exactly 40 less, hence with \<open>x < VESSEL_X + 10\<close>, left of
  the left limit of a frame, which would move it to \<^verbatim>\<open>VESSEL_X + 10\<close>.
\<close>

theorem backwash_unclamped:
  assumes "p \<in> set (particles s)" "region p = Retentate" "x p < VESSEL_X c + 50"
  shows "\<exists>q \<in> set (particles (handleBackwash s)).
           q = p\<lparr>x := x p - 40, region := Feed\<rparr> \<and> x q < VESSEL_X c + 10 \<and>
           (20 \<le> VESSEL_W c \<longrightarrow> hard_x c (x q) = VESSEL_X c + 10)"
proof -
  let ?q = "p\<lparr>x := x p - 40, region := Feed\<rparr>"
  have "?q = backwash_particle p" using assms(2) by (simp add: backwash_particle_def)
  then have "?q \<in> set (particles (handleBackwash s))"
    using assms(1) by (simp add: handleBackwash_def)
  moreover have "x ?q < VESSEL_X c + 10" using assms(3) by simp
  moreover have "20 \<le> VESSEL_W c \<longrightarrow> hard_x c (x ?q) = VESSEL_X c + 10"
    using assms(3) by (simp add: hard_x_def Let_def)
  ultimately show ?thesis by blast
qed

theorem backwash_unclamped_witness:
  "mk 2 60 140 12 0 0 Retentate \<in> set (particles s_bw) \<and>
   region (mk 2 60 140 12 0 0 Retentate) = Retentate \<and>
   x (mk 2 60 140 12 0 0 Retentate) < VESSEL_X c0 + 50 \<and>
   (\<exists>q \<in> set (particles (handleBackwash s_bw)).
      q = mk 2 20 140 12 0 0 Feed \<and> x q < VESSEL_X c0 + 10)"
proof -
  have h1: "mk 2 60 140 12 0 0 Retentate \<in> set (particles s_bw)" by (simp add: s_bw_def)
  have h2: "region (mk 2 60 140 12 0 0 Retentate) = Retentate" by (simp add: mk_def)
  have h3: "x (mk 2 60 140 12 0 0 Retentate) < VESSEL_X c0 + 50" by (simp add: mk_def c0_def)
  have e: "(mk 2 60 140 12 0 0 Retentate)\<lparr>x := x (mk 2 60 140 12 0 0 Retentate) - 40,
      region := Feed\<rparr> = mk 2 20 140 12 0 0 Feed"
    by (simp add: mk_def)
  from backwash_unclamped [OF h1 h2 h3] show ?thesis
    unfolding e using h1 h2 h3 by blast
qed

subsection \<open>Retentate drift\<close>

text \<open>
  Claim C9, evaluated where it fails. The horizontal increment of a retentate particle is
  \<open>(r - 0.3) \<times> dt \<times> 25\<close>, which the source comments as a gentle left drift. Its mean over
  equally spaced draws of the unit interval is \<open>5 \<times> dt\<close>, to the right for \<open>dt > 0\<close>; for
  the mean draw 1/2 and a frame of 1 s it is 5, and a retentate particle at 200 ends the
  frame at 205. (The second half of the claim holds: \<open>retentate_region_confined\<close>.)
\<close>

theorem retentate_drift_rightward:
  "mean_retentate_dx m dt = 5 * dt \<and>
   retentate_dx (1 / 2) 1 = 5 \<and>
   x (fst (step_particle c0 prm0 1 (\<lambda>_. 1 / 2) 0 (mk 3 200 100 12 0 0 Retentate))) = 205"
  by (simp add: mean_retentate_dx_eq)
    (simp add: retentate_dx_def step_particle_def vertical_mix_def retentate_region_def clamp_def
      hard_bounds_def hard_x_def c0_def prm0_def mk_def Let_def)

end
